theory Spec2Isabelle
  imports Complex_Main "HOL-Library.Sublist"
begin

section \<open>JSON values and JavaScript errors\<close>

text \<open>
  The client handles parsed JSON. An object is its list of key/value pairs in insertion
  order (a value produced by \<^verbatim>\<open>JSON.parse\<close> has distinct keys); a number is a rational,
  its value is never inspected by the client.
\<close>

datatype json =
    JNull
  | JBool bool
  | JNum rat
  | JStr string
  | JArr "json list"
  | JObj "(string \<times> json) list"

text \<open>
  Everything the client can throw. \<open>Error m\<close> is \<^verbatim>\<open>new Error(m)\<close>, the only error the
  client constructs itself; the others come from the libraries and the runtime:
  \<open>ZodError\<close> from a schema's \<^verbatim>\<open>parse\<close>, \<open>SyntaxError\<close> from \<^verbatim>\<open>JSON.parse\<close> and
  \<^verbatim>\<open>response.json()\<close>, \<open>AbortError\<close> from a \<^verbatim>\<open>fetch\<close> whose signal was aborted,
  \<open>FetchFailed\<close> from any other rejected \<^verbatim>\<open>fetch\<close>, \<open>JwtError\<close> from \<^verbatim>\<open>jwt.sign\<close>.
\<close>

datatype js_error =
    Error string
  | ZodError
  | SyntaxError
  | AbortError
  | FetchFailed string
  | JwtError string

section \<open>Response schemas (types.ts)\<close>

text \<open>
  The zod combinators the schemas use, on the value found under a key
  (\<open>None\<close>: the key is absent, the value is \<^verbatim>\<open>undefined\<close>).
\<close>

fun z_string :: "json option \<Rightarrow> string option" where
  "z_string (Some (JStr s)) = Some s"
| "z_string _ = None"

fun z_boolean :: "json option \<Rightarrow> bool option" where
  "z_boolean (Some (JBool b)) = Some b"
| "z_boolean _ = None"



text \<open>\<^verbatim>\<open>z.array(z.any())\<close>\<close>

fun z_array_any :: "json option \<Rightarrow> json list option" where
  "z_array_any (Some (JArr xs)) = Some xs"
| "z_array_any _ = None"



fun z_string_elem :: "json \<Rightarrow> string option" where
  "z_string_elem (JStr s) = Some s"
| "z_string_elem _ = None"

fun sequence :: "'a option list \<Rightarrow> 'a list option" where
  "sequence [] = Some []"
| "sequence (None # xs) = None"
| "sequence (Some x # xs) = (case sequence xs of None \<Rightarrow> None | Some ys \<Rightarrow> Some (x # ys))"

text \<open>\<^verbatim>\<open>z.array(z.string()).optional()\<close>\<close>

fun z_array_string_optional :: "json option \<Rightarrow> string list option option" where
  "z_array_string_optional None = Some None"
| "z_array_string_optional (Some (JArr xs)) =
     (case sequence (map z_string_elem xs) of None \<Rightarrow> None | Some ss \<Rightarrow> Some (Some ss))"
| "z_array_string_optional _ = None"

record SalesforceTokenResponse =
  access_token :: string
  instance_url :: string
  token_id :: string
  token_type :: string
  issued_at :: string
  signature :: string

definition SalesforceTokenResponseSchema :: "json \<Rightarrow> js_error + SalesforceTokenResponse" where
  "SalesforceTokenResponseSchema j =
     (case j of
        JObj kvs \<Rightarrow>
          (case (z_string (map_of kvs ''access_token''), z_string (map_of kvs ''instance_url''),
                 z_string (map_of kvs ''id''), z_string (map_of kvs ''token_type''),
                 z_string (map_of kvs ''issued_at''), z_string (map_of kvs ''signature'')) of
             (Some a, Some i, Some d, Some t, Some s, Some g) \<Rightarrow>
               Inr \<lparr>access_token = a, instance_url = i, token_id = d, token_type = t,
                    issued_at = s, signature = g\<rparr>
           | _ \<Rightarrow> Inl ZodError)
      | _ \<Rightarrow> Inl ZodError)"



text \<open>
  \<^verbatim>\<open>z.object\<close> keeps the keys its shape declares and strips every other key. The
  create response is handed to the caller as the parsed object, so it stays a JSON
  object here: the three declared keys, in the order of the shape.
\<close>

definition SalesforceCreateResponseSchema :: "json \<Rightarrow> js_error + json" where
  "SalesforceCreateResponseSchema j =
     (case j of
        JObj kvs \<Rightarrow>
          (case (z_string (map_of kvs ''id''), z_boolean (map_of kvs ''success''),
                 z_array_any (map_of kvs ''errors'')) of
             (Some i, Some b, Some es) \<Rightarrow>
               Inr (JObj [(''id'', JStr i), (''success'', JBool b), (''errors'', JArr es)])
           | _ \<Rightarrow> Inl ZodError)
      | _ \<Rightarrow> Inl ZodError)"

record SalesforceError =
  message :: string
  errorCode :: string
  errorFields :: "string list option"

definition SalesforceErrorElem :: "json \<Rightarrow> SalesforceError option" where
  "SalesforceErrorElem j =
     (case j of
        JObj kvs \<Rightarrow>
          (case (z_string (map_of kvs ''message''), z_string (map_of kvs ''errorCode''),
                 z_array_string_optional (map_of kvs ''fields'')) of
             (Some m, Some c, Some f) \<Rightarrow> Some \<lparr>message = m, errorCode = c, errorFields = f\<rparr>
           | _ \<Rightarrow> None)
      | _ \<Rightarrow> None)"

definition SalesforceErrorSchema :: "json \<Rightarrow> js_error + SalesforceError list" where
  "SalesforceErrorSchema j =
     (case j of
        JArr xs \<Rightarrow>
          (case sequence (map SalesforceErrorElem xs) of
             None \<Rightarrow> Inl ZodError
           | Some es \<Rightarrow> Inr es)
      | _ \<Rightarrow> Inl ZodError)"

section \<open>Configuration (types.ts, config.ts)\<close>

record SalesforceConfig =
  clientId :: string
  username :: string
  privateKey :: string
  configInstanceUrl :: "string option"
  loginUrl :: "string option"
  apiVersion :: "string option"

record SalesforceClientOptions =
  optConfig :: SalesforceConfig
  optTokenCacheTtlMs :: "int option"
  optRequestTimeoutMs :: "int option"
  optMaxRetries :: "int option"

definition HUBZONE_INSTANCE_URL :: string where
  "HUBZONE_INSTANCE_URL = ''https://hubzonetechnologyinitiative.my.salesforce.com''"

definition SALESFORCE_LOGIN_URL :: string where
  "SALESFORCE_LOGIN_URL = ''https://login.salesforce.com''"

definition DEFAULT_API_VERSION :: string where
  "DEFAULT_API_VERSION = ''v61.0''"

section \<open>The client's state and its environment (client.ts)\<close>

record TokenCache =
  accessToken :: string
  instanceUrl :: string
  expiresAt :: int

text \<open>
  The fields of the class. The numbers the client computes with are integers here: the
  expiry instant and the TTL in milliseconds, and the retry budget, which the source only
  compares with 0 and decreases by 1.
\<close>

record SalesforceClient =
  config :: SalesforceConfig
  tokenCache :: "TokenCache option"
  tokenCacheTtlMs :: int
  requestTimeoutMs :: int
  maxRetries :: int

text \<open>\<^verbatim>\<open>a ?? b\<close>\<close>

definition nullish :: "'a option \<Rightarrow> 'a \<Rightarrow> 'a" where
  "nullish a b = (case a of None \<Rightarrow> b | Some v \<Rightarrow> v)"

text \<open>
  The constructor: the three defaults, overridden by the keys \<^verbatim>\<open>options.config\<close> has;
  the token cache starts empty.
\<close>

definition new_SalesforceClient :: "SalesforceClientOptions \<Rightarrow> SalesforceClient" where
  "new_SalesforceClient options =
     \<lparr>config = (optConfig options)
        \<lparr>configInstanceUrl := Some (nullish (configInstanceUrl (optConfig options)) HUBZONE_INSTANCE_URL),
         loginUrl := Some (nullish (loginUrl (optConfig options)) SALESFORCE_LOGIN_URL),
         apiVersion := Some (nullish (apiVersion (optConfig options)) DEFAULT_API_VERSION)\<rparr>,
      tokenCache = None,
      tokenCacheTtlMs = nullish (optTokenCacheTtlMs options) (55 * 60 * 1000),
      requestTimeoutMs = nullish (optRequestTimeoutMs options) 30000,
      maxRetries = nullish (optMaxRetries options) 3\<rparr>"

text \<open>An optional string inside a template literal.\<close>

definition str :: "string option \<Rightarrow> string" where
  "str s = (case s of None \<Rightarrow> ''undefined'' | Some v \<Rightarrow> v)"

record RequestInit =
  requestMethod :: "string option"
  headers :: "(string \<times> string) list"
  body :: "string option"

text \<open>
  What the client does to the outside, in order: a POST to the token endpoint (its URL and
  the assertion its form-encoded body carries), a call to a resource URL, a wait of so
  many milliseconds (\<^verbatim>\<open>setTimeout\<close>). The trace of these effects is the state of the
  world.
\<close>

datatype event =
    TokenFetch string string
  | ResourceFetch string RequestInit
  | Sleep rat

type_synonym world = "event list"

fun is_TokenFetch :: "event \<Rightarrow> bool" where
  "is_TokenFetch (TokenFetch u a) = True"
| "is_TokenFetch _ = False"

fun is_ResourceFetch :: "event \<Rightarrow> bool" where
  "is_ResourceFetch (ResourceFetch u i) = True"
| "is_ResourceFetch _ = False"

definition token_calls :: "world \<Rightarrow> nat" where
  "token_calls w = length (filter is_TokenFetch w)"

definition resource_calls :: "world \<Rightarrow> nat" where
  "resource_calls w = length (filter is_ResourceFetch w)"

record response =
  status :: nat
  body_text :: string
  body_json :: "json option"

datatype fetch_result = Response response | Rejected js_error

text \<open>\<^verbatim>\<open>response.ok\<close>\<close>

definition ok :: "response \<Rightarrow> bool" where
  "ok r = (200 \<le> status r \<and> status r \<le> 299)"

record jwt_payload =
  iss :: string
  sub :: string
  aud :: "string option"
  exp :: int

text \<open>
  The environment of one run. \<open>clock n\<close> is what \<^verbatim>\<open>Date.now()\<close> returns once \<open>n\<close>
  effects have happened; \<open>token_endpoint n\<close> and \<open>resource_endpoint n\<close> are the
  outcomes of the \<open>n\<close>-th call (from 0) to the token endpoint and to the resource API,
  the latter \<open>Rejected AbortError\<close> when the request timer fires first. A response
  carries its status, its text and what the runtime's JSON parser makes of that text
  (\<open>None\<close>: it throws); reading the body of a response that has arrived does not fail.
  The remaining fields are the library functions the client calls.
\<close>

record env =
  clock :: "nat \<Rightarrow> int"
  token_endpoint :: "nat \<Rightarrow> fetch_result"
  resource_endpoint :: "nat \<Rightarrow> fetch_result"
  jwt_sign :: "jwt_payload \<Rightarrow> string \<Rightarrow> js_error + string"
  encodeURIComponent :: "string \<Rightarrow> string"
  JSON_stringify :: "json \<Rightarrow> string"

definition date_now :: "env \<Rightarrow> world \<Rightarrow> int" where
  "date_now E w = clock E (length w)"

section \<open>Authentication\<close>

definition generateJwtAssertion :: "env \<Rightarrow> SalesforceClient \<Rightarrow> world \<Rightarrow> js_error + string" where
  "generateJwtAssertion E c w =
     (let now = date_now E w div 1000;
          payload = \<lparr>iss = clientId (config c), sub = username (config c),
                     aud = loginUrl (config c), exp = now + 300\<rparr>
      in jwt_sign E payload (privateKey (config c)))"

definition authenticate ::
  "env \<Rightarrow> SalesforceClient \<Rightarrow> world \<Rightarrow> (js_error + string \<times> string) \<times> SalesforceClient \<times> world" where
  "authenticate E c w =
     (case (case tokenCache c of
              None \<Rightarrow> None
            | Some t \<Rightarrow> if date_now E w < expiresAt t then Some t else None) of
        Some t \<Rightarrow> (Inr (accessToken t, instanceUrl t), c, w)
      | None \<Rightarrow>
         (case generateJwtAssertion E c w of
            Inl e \<Rightarrow> (Inl e, c, w)
          | Inr assertion \<Rightarrow>
             (let tokenUrl = str (loginUrl (config c)) @ ''/services/oauth2/token'';
                  w1 = w @ [TokenFetch tokenUrl assertion]
              in case token_endpoint E (token_calls w) of
                   Rejected e \<Rightarrow> (Inl e, c, w1)
                 | Response r \<Rightarrow>
                    if \<not> ok r
                    then (Inl (Error (''Salesforce authentication failed: '' @ body_text r)), c, w1)
                    else (case body_json r of
                            None \<Rightarrow> (Inl SyntaxError, c, w1)
                          | Some j \<Rightarrow>
                             (case SalesforceTokenResponseSchema j of
                                Inl e \<Rightarrow> (Inl e, c, w1)
                              | Inr data \<Rightarrow>
                                 (Inr (access_token data, instance_url data),
                                  c\<lparr>tokenCache := Some
                                      \<lparr>accessToken = access_token data,
                                       instanceUrl = instance_url data,
                                       expiresAt = date_now E w1 + tokenCacheTtlMs c\<rparr>\<rparr>,
                                  w1))))))"

definition clearTokenCache :: "SalesforceClient \<Rightarrow> SalesforceClient" where
  "clearTokenCache c = c\<lparr>tokenCache := None\<rparr>"

section \<open>The generic request\<close>

text \<open>
  \<^verbatim>\<open>{ Authorization: ..., 'Content-Type': ..., ...options.headers }\<close>: a key of the second
  object replaces the value of the same key of the first, other keys follow.
\<close>

definition spread :: "(string \<times> string) list \<Rightarrow> (string \<times> string) list \<Rightarrow> (string \<times> string) list" where
  "spread base over =
     map (\<lambda>(k, v). (k, case map_of over k of None \<Rightarrow> v | Some v' \<Rightarrow> v')) base
     @ filter (\<lambda>(k, v). map_of base k = None) over"

text \<open>A status inside a template literal: its decimal digits.\<close>

fun show_nat :: "nat \<Rightarrow> string" where
  "show_nat n =
     (if n < 10 then [''0123456789'' ! n]
      else show_nat (n div 10) @ [''0123456789'' ! (n mod 10)])"

declare show_nat.simps [simp del]

text \<open>\<^verbatim>\<open>Array.prototype.join\<close>\<close>

fun join :: "string \<Rightarrow> string list \<Rightarrow> string" where
  "join sep [] = []"
| "join sep [x] = x"
| "join sep (x # y # ys) = x @ sep @ join sep (y # ys)"

text \<open>
  The local \<^verbatim>\<open>errorMessage\<close> of \<^verbatim>\<open>request\<close>: the raw text with the status, replaced
  by the parsed messages when \<^verbatim>\<open>JSON.parse\<close> and the error schema both accept the text;
  the inner \<^verbatim>\<open>catch\<close> swallows whatever either of them throws.
\<close>

definition errorMessage :: "response \<Rightarrow> string" where
  "errorMessage r =
     (case (case body_json r of None \<Rightarrow> Inl SyntaxError | Some j \<Rightarrow> SalesforceErrorSchema j) of
        Inr errors \<Rightarrow> ''Salesforce API Error: '' @ join '', '' (map message errors)
      | Inl e \<Rightarrow> ''Salesforce API Error ('' @ show_nat (status r) @ ''): '' @ body_text r)"

text \<open>The local \<^verbatim>\<open>delay\<close>: \<^verbatim>\<open>Math.pow(2, this.maxRetries - retries) * 1000\<close>.\<close>

definition delay :: "SalesforceClient \<Rightarrow> int \<Rightarrow> rat" where
  "delay c retries = power_int 2 (maxRetries c - retries) * 1000"

text \<open>
  One call of \<^verbatim>\<open>request\<close>. The recursive calls are returned without \<^verbatim>\<open>await\<close>, so what
  they throw does not pass through the \<^verbatim>\<open>catch\<close> of the caller; the errors thrown
  inside the \<^verbatim>\<open>try\<close> are not named \<^verbatim>\<open>AbortError\<close> and are thrown again unchanged.
\<close>

function request ::
  "env \<Rightarrow> SalesforceClient \<Rightarrow> world \<Rightarrow> string \<Rightarrow> RequestInit \<Rightarrow> int
     \<Rightarrow> (js_error + json) \<times> SalesforceClient \<times> world" where
  "request E c w endpoint options retries =
     (case authenticate E c w of
        (Inl e, c1, w1) \<Rightarrow> (Inl e, c1, w1)
      | (Inr (accessToken', instanceUrl'), c1, w1) \<Rightarrow>
         (let url = instanceUrl' @ ''/services/data/'' @ str (apiVersion (config c1)) @ endpoint;
              init = options\<lparr>headers :=
                       spread [(''Authorization'', ''Bearer '' @ accessToken'),
                               (''Content-Type'', ''application/json'')] (headers options)\<rparr>;
              w2 = w1 @ [ResourceFetch url init]
          in case resource_endpoint E (resource_calls w1) of
               Response r \<Rightarrow>
                 if status r = 401 then
                   (let c2 = clearTokenCache c1
                    in if retries > 0 then request E c2 w2 endpoint options (retries - 1)
                       else (Inl (Error ''Salesforce authentication failed after retries''), c2, w2))
                 else if status r = 429 \<and> retries > 0 then
                   request E c1 (w2 @ [Sleep (delay c1 retries)]) endpoint options (retries - 1)
                 else if status r \<ge> 500 \<and> retries > 0 then
                   request E c1 (w2 @ [Sleep (delay c1 retries)]) endpoint options (retries - 1)
                 else if \<not> ok r then (Inl (Error (errorMessage r)), c1, w2)
                 else if status r = 204 then (Inr (JObj []), c1, w2)
                 else (case body_json r of
                         None \<Rightarrow> (Inl SyntaxError, c1, w2)
                       | Some j \<Rightarrow> (Inr j, c1, w2))
             | Rejected error \<Rightarrow>
                 if error = AbortError then
                   (if retries > 0
                    then request E c1 (w2 @ [Sleep (delay c1 retries)]) endpoint options (retries - 1)
                    else (Inl (Error ''Salesforce request timeout after retries''), c1, w2))
                 else (Inl error, c1, w2)))"
  by pat_completeness auto
termination
  by (relation "measure (\<lambda>(E, c, w, endpoint, options, retries). nat retries)") auto

declare request.simps [simp del]

section \<open>SOQL query and record creation\<close>



text \<open>\<^verbatim>\<open>options = {}\<close>\<close>

definition no_options :: RequestInit where
  "no_options = \<lparr>requestMethod = None, headers = [], body = None\<rparr>"



definition createRecord ::
  "env \<Rightarrow> SalesforceClient \<Rightarrow> world \<Rightarrow> string \<Rightarrow> json
     \<Rightarrow> (js_error + json) \<times> SalesforceClient \<times> world" where
  "createRecord E c w sobject data =
     (case request E c w (''/sobjects/'' @ sobject @ ''/'')
             \<lparr>requestMethod = Some ''POST'', headers = [], body = Some (JSON_stringify E data)\<rparr>
             (maxRetries c) of
        (Inl e, c1, w1) \<Rightarrow> (Inl e, c1, w1)
      | (Inr response, c1, w1) \<Rightarrow>
         (case SalesforceCreateResponseSchema response of
            Inl e \<Rightarrow> (Inl e, c1, w1)
          | Inr created \<Rightarrow> (Inr created, c1, w1)))"

section \<open>Auxiliary notions for the proofs\<close>

text \<open>The event of the resource call that \<^verbatim>\<open>request\<close> makes with a given token and base URL.\<close>

definition fetch_event :: "SalesforceClient \<Rightarrow> string \<Rightarrow> string \<Rightarrow> string \<Rightarrow> RequestInit \<Rightarrow> event" where
  "fetch_event c tok base endpoint options =
     ResourceFetch (base @ ''/services/data/'' @ str (apiVersion (config c)) @ endpoint)
       (options\<lparr>headers := spread [(''Authorization'', ''Bearer '' @ tok),
                                   (''Content-Type'', ''application/json'')] (headers options)\<rparr>)"

text \<open>
  One pass through the body of \<^verbatim>\<open>request\<close>: either what it returns or throws, or the
  state in which it calls itself with \<open>retries - 1\<close>. Lemma \<open>request_attempt\<close> below
  shows that \<open>request\<close> is the iteration of \<open>attempt\<close>.
\<close>

datatype step =
    Return "(js_error + json) \<times> SalesforceClient \<times> world"
  | Again SalesforceClient world

definition attempt ::
  "env \<Rightarrow> SalesforceClient \<Rightarrow> world \<Rightarrow> string \<Rightarrow> RequestInit \<Rightarrow> int \<Rightarrow> step" where
  "attempt E c w endpoint options retries =
     (case authenticate E c w of
        (Inl e, c1, w1) \<Rightarrow> Return (Inl e, c1, w1)
      | (Inr (tok, base), c1, w1) \<Rightarrow>
         (let w2 = w1 @ [fetch_event c1 tok base endpoint options]
          in case resource_endpoint E (resource_calls w1) of
               Response r \<Rightarrow>
                 if status r = 401 then
                   (if retries > 0 then Again (clearTokenCache c1) w2
                    else Return (Inl (Error ''Salesforce authentication failed after retries''),
                                 clearTokenCache c1, w2))
                 else if (status r = 429 \<or> status r \<ge> 500) \<and> retries > 0 then
                   Again c1 (w2 @ [Sleep (delay c1 retries)])
                 else if \<not> ok r then Return (Inl (Error (errorMessage r)), c1, w2)
                 else if status r = 204 then Return (Inr (JObj []), c1, w2)
                 else (case body_json r of
                         None \<Rightarrow> Return (Inl SyntaxError, c1, w2)
                       | Some j \<Rightarrow> Return (Inr j, c1, w2))
             | Rejected error \<Rightarrow>
                 if error = AbortError then
                   (if retries > 0 then Again c1 (w2 @ [Sleep (delay c1 retries)])
                    else Return (Inl (Error ''Salesforce request timeout after retries''), c1, w2))
                 else Return (Inl error, c1, w2)))"

text \<open>The waits of a trace, in order.\<close>

fun waits :: "event list \<Rightarrow> rat list" where
  "waits [] = []"
| "waits (Sleep d # es) = d # waits es"
| "waits (e # es) = waits es"

text \<open>
  Every wait of a trace comes after at least one resource call, and after \<open>j\<close> resource
  calls it lasts \<open>2 ^ (off + j - 1) * 1000\<close> ms; \<open>j\<close> counts from the given start.
\<close>

fun waits_follow :: "int \<Rightarrow> nat \<Rightarrow> event list \<Rightarrow> bool" where
  "waits_follow off j [] = True"
| "waits_follow off j (ResourceFetch u i # es) = waits_follow off (Suc j) es"
| "waits_follow off j (Sleep d # es) =
     (0 < j \<and> d = power_int 2 (off + int j - 1) * 1000 \<and> waits_follow off j es)"
| "waits_follow off j (TokenFetch u a # es) = waits_follow off j es"

text \<open>Authentication succeeds whenever it is attempted.\<close>

definition authenticates :: "env \<Rightarrow> bool" where
  "authenticates E = (\<forall>c w. \<exists>p c' w'. authenticate E c w = (Inr p, c', w'))"





section \<open>Example inputs\<close>

definition example_options :: SalesforceClientOptions where
  "example_options =
     \<lparr>optConfig = \<lparr>clientId = ''key'', username = ''user@example.org'', privateKey = ''pem'',
                    configInstanceUrl = None, loginUrl = None, apiVersion = None\<rparr>,
      optTokenCacheTtlMs = None, optRequestTimeoutMs = None, optMaxRetries = None\<rparr>"

definition example_client :: SalesforceClient where
  "example_client = new_SalesforceClient example_options"

definition example_token :: "int \<Rightarrow> TokenCache" where
  "example_token t = \<lparr>accessToken = ''T1'', instanceUrl = ''https://x'', expiresAt = t\<rparr>"

definition reply :: "nat \<Rightarrow> string \<Rightarrow> json option \<Rightarrow> fetch_result" where
  "reply s t j = Response \<lparr>status = s, body_text = t, body_json = j\<rparr>"

definition example_token_json :: json where
  "example_token_json =
     JObj [(''access_token'', JStr ''T1''), (''instance_url'', JStr ''https://x''),
           (''id'', JStr ''i''), (''token_type'', JStr ''Bearer''),
           (''issued_at'', JStr ''0''), (''signature'', JStr ''s'')]"

text \<open>
  An environment whose clock stands at 0, whose signer always signs, whose token endpoint
  always answers \<open>token\<close> and whose \<open>n\<close>-th resource call is answered by \<open>resource n\<close>.
\<close>

definition example_env :: "fetch_result \<Rightarrow> (nat \<Rightarrow> fetch_result) \<Rightarrow> env" where
  "example_env token resource =
     \<lparr>clock = (\<lambda>n. 0), token_endpoint = (\<lambda>n. token), resource_endpoint = resource,
      jwt_sign = (\<lambda>p k. Inr ''signed''), encodeURIComponent = (\<lambda>s. s),
      JSON_stringify = (\<lambda>j. ''{}'')\<rparr>"

definition token_granted :: fetch_result where
  "token_granted = reply 200 ''token'' (Some example_token_json)"

text \<open>The resource API that gives the same outcome to every call.\<close>

definition always :: "fetch_result \<Rightarrow> nat \<Rightarrow> fetch_result" where
  "always f n = f"

definition example_error_json :: json where
  "example_error_json = JArr [JObj [(''message'', JStr ''busy''), (''errorCode'', JStr ''E'')]]"

definition example_error_text :: string where
  \<open>example_error_text = ''[{"message":"busy","errorCode":"E"}]''\<close>

definition example_create_json :: json where
  "example_create_json =
     JObj [(''id'', JStr ''001x''), (''success'', JBool True), (''errors'', JArr [])]"

definition example_create_text :: string where
  \<open>example_create_text = ''{"id":"001x","success":true,"errors":[]}''\<close>






section \<open>Authentication: cache hit, cache store, failure\<close>

text \<open>
  C2. When a cached token exists and the current time is strictly before its expiry
  instant, \<open>authenticate\<close> returns the cached access token and instance URL and leaves
  the client and the world as they are: nothing is sent, in particular no call is made to
  the token endpoint.
\<close>

theorem authenticate_cache_hit:
  "tokenCache c = Some t \<Longrightarrow> date_now E w < expiresAt t \<Longrightarrow>
     authenticate E c w = (Inr (accessToken t, instanceUrl t), c, w)
     \<and> token_calls (snd (snd (authenticate E c w))) = token_calls w"
  by (simp add: authenticate_def)

theorem authenticate_cache_hit_witness:
  "tokenCache (example_client\<lparr>tokenCache := Some (example_token 5)\<rparr>) = Some (example_token 5)
   \<and> date_now (example_env (Rejected (FetchFailed ''down'')) (always (Rejected AbortError))) []
       < expiresAt (example_token 5)
   \<and> authenticate (example_env (Rejected (FetchFailed ''down'')) (always (Rejected AbortError)))
       (example_client\<lparr>tokenCache := Some (example_token 5)\<rparr>) []
     = (Inr (''T1'', ''https://x''), example_client\<lparr>tokenCache := Some (example_token 5)\<rparr>, [])"
  using authenticate_cache_hit
    [of "example_client\<lparr>tokenCache := Some (example_token 5)\<rparr>" "example_token 5"
        "example_env (Rejected (FetchFailed ''down'')) (always (Rejected AbortError))" "[]"]
  by (simp add: example_token_def example_env_def date_now_def)

text \<open>
  C10. A failed \<open>authenticate\<close> leaves the client as it was, the cached-token slot
  included, whatever made it fail (the signer, a rejected fetch, a non-success status, a
  body that is not JSON, a body the token schema rejects): the slot is written only
  after the exchange has succeeded.
\<close>

theorem authenticate_failure_keeps_cache:
  "authenticate E c w = (Inl e, c', w') \<Longrightarrow> tokenCache c' = tokenCache c \<and> c' = c"
  by (auto simp: authenticate_def Let_def
      split: option.splits if_splits sum.splits fetch_result.splits)

theorem authenticate_failure_keeps_cache_witness:
  "authenticate (example_env (reply 400 ''denied'' None) (always (Rejected AbortError)))
       (example_client\<lparr>tokenCache := Some (example_token 0)\<rparr>) []
     = (Inl (Error ''Salesforce authentication failed: denied''),
        example_client\<lparr>tokenCache := Some (example_token 0)\<rparr>,
        [TokenFetch ''https://login.salesforce.com/services/oauth2/token'' ''signed''])
   \<and> tokenCache (example_client\<lparr>tokenCache := Some (example_token 0)\<rparr>) = Some (example_token 0)"
proof -
  have run: "authenticate (example_env (reply 400 ''denied'' None) (always (Rejected AbortError)))
       (example_client\<lparr>tokenCache := Some (example_token 0)\<rparr>) []
     = (Inl (Error ''Salesforce authentication failed: denied''),
        example_client\<lparr>tokenCache := Some (example_token 0)\<rparr>,
        [TokenFetch ''https://login.salesforce.com/services/oauth2/token'' ''signed''])"
    by (simp add: authenticate_def generateJwtAssertion_def example_env_def example_token_def
        example_client_def example_options_def new_SalesforceClient_def nullish_def
        SALESFORCE_LOGIN_URL_def str_def date_now_def token_calls_def reply_def ok_def)
  from authenticate_failure_keeps_cache [OF run] run show ?thesis by simp
qed



section \<open>The request as an iteration of attempts\<close>

lemma request_unfold:
  "request E c w endpoint options retries =
     (case authenticate E c w of
        (Inl e, c1, w1) \<Rightarrow> (Inl e, c1, w1)
      | (Inr (tok, base), c1, w1) \<Rightarrow>
         (case resource_endpoint E (resource_calls w1) of
               Response r \<Rightarrow>
                 if status r = 401 then
                   (if retries > 0
                    then request E (clearTokenCache c1) (w1 @ [fetch_event c1 tok base endpoint options])
                           endpoint options (retries - 1)
                    else (Inl (Error ''Salesforce authentication failed after retries''),
                          clearTokenCache c1, w1 @ [fetch_event c1 tok base endpoint options]))
                 else if status r = 429 \<and> retries > 0 then
                   request E c1 (w1 @ [fetch_event c1 tok base endpoint options] @ [Sleep (delay c1 retries)])
                     endpoint options (retries - 1)
                 else if status r \<ge> 500 \<and> retries > 0 then
                   request E c1 (w1 @ [fetch_event c1 tok base endpoint options] @ [Sleep (delay c1 retries)])
                     endpoint options (retries - 1)
                 else if \<not> ok r
                   then (Inl (Error (errorMessage r)), c1, w1 @ [fetch_event c1 tok base endpoint options])
                 else if status r = 204
                   then (Inr (JObj []), c1, w1 @ [fetch_event c1 tok base endpoint options])
                 else (case body_json r of
                         None \<Rightarrow> (Inl SyntaxError, c1, w1 @ [fetch_event c1 tok base endpoint options])
                       | Some j \<Rightarrow> (Inr j, c1, w1 @ [fetch_event c1 tok base endpoint options]))
             | Rejected error \<Rightarrow>
                 if error = AbortError then
                   (if retries > 0
                    then request E c1 (w1 @ [fetch_event c1 tok base endpoint options] @ [Sleep (delay c1 retries)])
                           endpoint options (retries - 1)
                    else (Inl (Error ''Salesforce request timeout after retries''), c1,
                          w1 @ [fetch_event c1 tok base endpoint options]))
                 else (Inl error, c1, w1 @ [fetch_event c1 tok base endpoint options])))"
  apply (subst request.simps)
  unfolding Let_def fetch_event_def append_assoc
  apply (rule refl)
  done

lemma request_attempt:
  "request E c w endpoint options retries =
     (case attempt E c w endpoint options retries of
        Return x \<Rightarrow> x
      | Again c' w' \<Rightarrow> request E c' w' endpoint options (retries - 1))"
  by (subst request_unfold)
     (simp add: attempt_def Let_def split: prod.splits sum.splits fetch_result.splits option.splits)

lemma resource_calls_Nil [simp]: "resource_calls [] = 0"
  by (simp add: resource_calls_def)

lemma resource_calls_Cons [simp]:
  "resource_calls (e # es) = (if is_ResourceFetch e then 1 else 0) + resource_calls es"
  by (simp add: resource_calls_def)

lemma resource_calls_append [simp]:
  "resource_calls (u @ v) = resource_calls u + resource_calls v"
  by (simp add: resource_calls_def)

lemma is_ResourceFetch_fetch_event [simp]:
  "is_ResourceFetch (fetch_event c tok base endpoint options)"
  by (simp add: fetch_event_def)

lemma resource_calls_TokenFetch:
  "list_all is_TokenFetch seg \<Longrightarrow> resource_calls seg = 0"
  by (induction seg) (auto elim: is_TokenFetch.elims)

lemma authenticate_effects:
  assumes "authenticate E c w = (x, c1, w1)"
  shows "\<exists>seg. w1 = w @ seg \<and> list_all is_TokenFetch seg"
    and "maxRetries c1 = maxRetries c"
    and "config c1 = config c"
  using assms
  by (auto simp: authenticate_def Let_def
      split: option.splits if_splits sum.splits fetch_result.splits)


lemma authenticate_no_cache:
  assumes "tokenCache c = None" and "authenticate E c w = (x, c1, w1)"
  shows "(\<exists>u a. w1 = w @ [TokenFetch u a]) \<or> (\<exists>e. x = Inl e \<and> w1 = w)"
  using assms
  by (auto simp: authenticate_def Let_def
      split: option.splits if_splits sum.splits fetch_result.splits)

lemma delay_cong: "maxRetries c' = maxRetries c \<Longrightarrow> delay c' r = delay c r"
  by (simp add: delay_def)

lemma attempt_Again:
  assumes "attempt E c w endpoint options retries = Again c' w'"
  shows "0 < retries" and "maxRetries c' = maxRetries c"
    and "\<exists>a e. list_all is_TokenFetch a \<and> is_ResourceFetch e \<and>
           (w' = w @ a @ [e] \<or> w' = w @ a @ [e, Sleep (delay c retries)])"
proof -
  obtain x c1 w1 where a: "authenticate E c w = (x, c1, w1)"
    by (metis prod_cases3)
  from authenticate_effects [OF a] obtain seg
    where seg: "w1 = w @ seg" "list_all is_TokenFetch seg"
      and m: "maxRetries c1 = maxRetries c" by blast
  from assms a show "0 < retries"
    by (auto simp: attempt_def Let_def
        split: sum.splits fetch_result.splits if_splits option.splits)
  from assms a m show "maxRetries c' = maxRetries c"
    by (auto simp: attempt_def Let_def clearTokenCache_def
        split: sum.splits fetch_result.splits if_splits option.splits)
  from assms a have
    "\<exists>tok base. w' = w1 @ [fetch_event c1 tok base endpoint options] \<or>
        w' = w1 @ [fetch_event c1 tok base endpoint options, Sleep (delay c1 retries)]"
    by (auto simp: attempt_def Let_def
        split: sum.splits fetch_result.splits if_splits option.splits; blast)
  then have
    "\<exists>e. is_ResourceFetch e \<and> (w' = w1 @ [e] \<or> w' = w1 @ [e, Sleep (delay c1 retries)])"
    using is_ResourceFetch_fetch_event by blast
  with seg delay_cong [OF m]
  show "\<exists>a e. list_all is_TokenFetch a \<and> is_ResourceFetch e \<and>
           (w' = w @ a @ [e] \<or> w' = w @ a @ [e, Sleep (delay c retries)])"
    by auto
qed

lemma attempt_Return:
  assumes "attempt E c w endpoint options retries = Return (x, c', w')"
  shows "\<exists>a. list_all is_TokenFetch a \<and>
           (w' = w @ a \<or> (\<exists>e. is_ResourceFetch e \<and> w' = w @ a @ [e]))"
proof -
  obtain y c1 w1 where a: "authenticate E c w = (y, c1, w1)"
    by (metis prod_cases3)
  from authenticate_effects(1) [OF a] obtain seg
    where seg: "w1 = w @ seg" "list_all is_TokenFetch seg" by blast
  from assms a have "w' = w1 \<or> (\<exists>tok base. w' = w1 @ [fetch_event c1 tok base endpoint options])"
    by (auto simp: attempt_def Let_def
        split: sum.splits fetch_result.splits if_splits option.splits; blast)
  then have "w' = w1 \<or> (\<exists>e. is_ResourceFetch e \<and> w' = w1 @ [e])"
    using is_ResourceFetch_fetch_event by blast
  with seg show ?thesis by auto
qed

text \<open>Induction over the attempts of a request.\<close>

lemma request_induct [consumes 0, case_names Return Again]:
  assumes ret: "\<And>c w retries x. attempt E c w endpoint options retries = Return x \<Longrightarrow> P c w retries"
    and again: "\<And>c w retries c' w'.
        attempt E c w endpoint options retries = Again c' w' \<Longrightarrow> 0 < retries \<Longrightarrow>
        P c' w' (retries - 1) \<Longrightarrow> P c w retries"
  shows "P c w retries"
proof (induction "nat retries" arbitrary: c w retries)
  case 0
  show ?case
  proof (cases "attempt E c w endpoint options retries")
    case (Return x)
    then show ?thesis by (rule ret)
  next
    case (Again c' w')
    with 0 attempt_Again(1) [OF Again] show ?thesis by simp
  qed
next
  case (Suc n)
  show ?case
  proof (cases "attempt E c w endpoint options retries")
    case (Return x)
    then show ?thesis by (rule ret)
  next
    case (Again c' w')
    have "n = nat (retries - 1)" using Suc.hyps(2) by simp
    from again [OF Again attempt_Again(1) [OF Again] Suc.hyps(1) [OF this]]
    show ?thesis .
  qed
qed

lemma request_Return:
  "attempt E c w endpoint options retries = Return x \<Longrightarrow>
     request E c w endpoint options retries = x"
  by (subst request_attempt) simp

lemma request_Again:
  "attempt E c w endpoint options retries = Again c' w' \<Longrightarrow>
     request E c w endpoint options retries = request E c' w' endpoint options (retries - 1)"
  by (subst request_attempt) simp

lemma request_extends:
  "\<exists>seg. snd (snd (request E c w endpoint options retries)) = w @ seg
        \<and> resource_calls seg \<le> nat retries + 1"
proof (induction c w retries
    rule: request_induct [where E = E and endpoint = endpoint and options = options])
  case (Return c w retries x)
  from attempt_Return [of E c w endpoint options retries "fst x" "fst (snd x)" "snd (snd x)"] Return
  obtain a where "list_all is_TokenFetch a"
    "snd (snd x) = w @ a \<or> (\<exists>e. is_ResourceFetch e \<and> snd (snd x) = w @ a @ [e])"
    by auto
  then show ?case
    by (auto simp: request_Return [OF Return] resource_calls_TokenFetch)
next
  case (Again c w retries c' w')
  from attempt_Again(3) [OF Again(1)] obtain a e
    where a: "list_all is_TokenFetch a" "is_ResourceFetch e"
      "w' = w @ a @ [e] \<or> w' = w @ a @ [e, Sleep (delay c retries)]"
    by blast
  from Again(3) obtain seg
    where seg: "snd (snd (request E c' w' endpoint options (retries - 1))) = w' @ seg"
      "resource_calls seg \<le> nat (retries - 1) + 1"
    by blast
  from a(3) show ?case
  proof
    assume "w' = w @ a @ [e]"
    with seg a(1,2) Again(2)
    have "snd (snd (request E c' w' endpoint options (retries - 1))) = w @ (a @ [e] @ seg)
        \<and> resource_calls (a @ [e] @ seg) \<le> nat retries + 1"
      by (simp add: resource_calls_TokenFetch)
    then show ?thesis unfolding request_Again [OF Again(1)] by blast
  next
    assume "w' = w @ a @ [e, Sleep (delay c retries)]"
    with seg a(1,2) Again(2)
    have "snd (snd (request E c' w' endpoint options (retries - 1)))
          = w @ (a @ [e, Sleep (delay c retries)] @ seg)
        \<and> resource_calls (a @ [e, Sleep (delay c retries)] @ seg) \<le> nat retries + 1"
      by (simp add: resource_calls_TokenFetch)
    then show ?thesis unfolding request_Again [OF Again(1)] by blast
  qed
qed

section \<open>Termination and the bound on attempts\<close>

text \<open>
  C9. \<open>request\<close> is a total function: its recursion is on the retry budget, which every
  retry path (401, 429, status 500 and above, timeout) finds positive and decreases by
  one. With budget \<open>retries\<close> it only adds to the trace, and what it adds holds at most
  \<open>retries + 1\<close> resource calls (one when the budget is 0 or less).
\<close>

theorem request_attempts_bounded:
  "\<exists>seg. snd (snd (request E c w endpoint options retries)) = w @ seg
        \<and> int (resource_calls seg) \<le> max 0 retries + 1"
proof -
  from request_extends [of E c w endpoint options retries] obtain seg
    where "snd (snd (request E c w endpoint options retries)) = w @ seg"
      "resource_calls seg \<le> nat retries + 1"
    by blast
  then have "snd (snd (request E c w endpoint options retries)) = w @ seg
        \<and> int (resource_calls seg) \<le> max 0 retries + 1"
    by auto
  then show ?thesis by blast
qed

section \<open>Unauthorized responses\<close>

lemma attempt_Return_auth:
  assumes "attempt E c w endpoint options retries = Return (x, c', w')"
    and "authenticate E c w = (y, c1, w1)"
  shows "w' = w1 \<or> (\<exists>e. is_ResourceFetch e \<and> w' = w1 @ [e])"
proof -
  from assms have "w' = w1 \<or> (\<exists>tok base. w' = w1 @ [fetch_event c1 tok base endpoint options])"
    by (auto simp: attempt_def Let_def
        split: sum.splits fetch_result.splits if_splits option.splits; blast)
  then show ?thesis
    using is_ResourceFetch_fetch_event by blast
qed

lemma attempt_Again_auth:
  assumes "attempt E c w endpoint options retries = Again c' w'"
    and "authenticate E c w = (y, c1, w1)"
  shows "\<exists>e seg. w' = w1 @ e # seg"
  using assms
  by (auto simp: attempt_def Let_def
      split: sum.splits fetch_result.splits if_splits option.splits)

lemma request_extends_auth:
  assumes "authenticate E c w = (y, c1, w1)"
  shows "\<exists>seg. snd (snd (request E c w endpoint options retries)) = w1 @ seg"
proof (cases "attempt E c w endpoint options retries")
  case (Return x)
  from attempt_Return_auth [of E c w endpoint options retries "fst x" "fst (snd x)" "snd (snd x)", OF _ assms]
    Return
  have "snd (snd x) = w1 \<or> (\<exists>e. snd (snd x) = w1 @ [e])" by auto
  with Return show ?thesis
    by (subst request_attempt) auto
next
  case (Again c' w')
  from attempt_Again_auth [OF Again assms] obtain e seg where w': "w' = w1 @ e # seg"
    by blast
  from request_extends [of E c' w' endpoint options "retries - 1"] obtain seg'
    where "snd (snd (request E c' w' endpoint options (retries - 1))) = w' @ seg'"
    by blast
  with w' Again show ?thesis
    by (subst request_attempt) simp
qed

lemma request_no_cache:
  assumes "tokenCache c = None"
    and "request E c w endpoint options retries = (res, c', w')"
  shows "(\<exists>u a seg. w' = w @ TokenFetch u a # seg) \<or> (\<exists>e. res = Inl e \<and> w' = w)"
proof -
  obtain x c1 w1 where a: "authenticate E c w = (x, c1, w1)"
    by (metis prod_cases3)
  from authenticate_no_cache [OF assms(1) a] show ?thesis
  proof
    assume "\<exists>u a. w1 = w @ [TokenFetch u a]"
    then obtain u t where "w1 = w @ [TokenFetch u t]" by blast
    with request_extends_auth [OF a, of endpoint options retries] assms(2)
    show ?thesis by auto
  next
    assume "\<exists>e. x = Inl e \<and> w1 = w"
    then obtain e where "x = Inl e" "w1 = w" by blast
    with a have "request E c w endpoint options retries = (Inl e, c1, w)"
      by (subst request_unfold) simp
    with assms(2) show ?thesis by auto
  qed
qed

text \<open>
  C1. Take a call of \<open>request\<close> whose authentication yields a token and whose resource
  call is answered with status 401. The cached token is cleared in either case. With a
  remaining budget above 0 the call is the same as calling \<open>request\<close> again with the
  budget less one, from the client with the empty cache and the trace with the rejected
  call; that retry, having no cached token, first calls the token endpoint (unless the
  signer throws, which ends it at once). With no budget left the call fails with the error
  ``Salesforce authentication failed after retries'' (the source has no error classes:
  this plain error is its authentication error), the cache empty.
\<close>

theorem request_unauthorized:
  assumes "authenticate E c w = (Inr (tok, base), c1, w1)"
    and "resource_endpoint E (resource_calls w1) = Response r"
    and "status r = 401"
  shows "(0 < retries \<longrightarrow>
            request E c w endpoint options retries
              = request E (c1\<lparr>tokenCache := None\<rparr>)
                  (w1 @ [fetch_event c1 tok base endpoint options]) endpoint options (retries - 1)
            \<and> (\<forall>res c' w'.
                  request E (c1\<lparr>tokenCache := None\<rparr>)
                    (w1 @ [fetch_event c1 tok base endpoint options]) endpoint options (retries - 1)
                    = (res, c', w') \<longrightarrow>
                  (\<exists>u a seg. w' = (w1 @ [fetch_event c1 tok base endpoint options]) @ TokenFetch u a # seg)
                  \<or> (\<exists>e. res = Inl e \<and> w' = w1 @ [fetch_event c1 tok base endpoint options])))
       \<and> (retries \<le> 0 \<longrightarrow>
            request E c w endpoint options retries
              = (Inl (Error ''Salesforce authentication failed after retries''),
                 c1\<lparr>tokenCache := None\<rparr>, w1 @ [fetch_event c1 tok base endpoint options]))"
proof (intro conjI impI allI)
  assume "0 < retries"
  with assms show "request E c w endpoint options retries
      = request E (c1\<lparr>tokenCache := None\<rparr>)
          (w1 @ [fetch_event c1 tok base endpoint options]) endpoint options (retries - 1)"
    by (subst request_unfold) (simp add: clearTokenCache_def)
next
  fix res c' w'
  assume "request E (c1\<lparr>tokenCache := None\<rparr>)
      (w1 @ [fetch_event c1 tok base endpoint options]) endpoint options (retries - 1)
      = (res, c', w')"
  from request_no_cache [OF _ this]
  show "(\<exists>u a seg. w' = (w1 @ [fetch_event c1 tok base endpoint options]) @ TokenFetch u a # seg)
      \<or> (\<exists>e. res = Inl e \<and> w' = w1 @ [fetch_event c1 tok base endpoint options])"
    by simp
next
  assume "retries \<le> 0"
  with assms show "request E c w endpoint options retries
      = (Inl (Error ''Salesforce authentication failed after retries''),
         c1\<lparr>tokenCache := None\<rparr>, w1 @ [fetch_event c1 tok base endpoint options])"
    by (subst request_unfold) (simp add: clearTokenCache_def)
qed

lemmas example_defs =
  example_env_def example_token_def example_client_def example_options_def
  new_SalesforceClient_def nullish_def SALESFORCE_LOGIN_URL_def DEFAULT_API_VERSION_def
  HUBZONE_INSTANCE_URL_def str_def date_now_def token_calls_def reply_def ok_def
  token_granted_def example_token_json_def

lemma example_authenticate:
  "authenticate (example_env token_granted f) example_client []
     = (Inr (''T1'', ''https://x''),
        example_client\<lparr>tokenCache := Some (example_token 3300000)\<rparr>,
        [TokenFetch ''https://login.salesforce.com/services/oauth2/token'' ''signed''])"
  by (simp add: authenticate_def generateJwtAssertion_def example_defs
      SalesforceTokenResponseSchema_def)

lemma example_run_401:
  "request (example_env token_granted (always (reply 401 ''expired'' None))) example_client []
       ''/limits/'' no_options 1
     = (Inl (Error ''Salesforce authentication failed after retries''),
        example_client\<lparr>tokenCache := None\<rparr>,
        [TokenFetch ''https://login.salesforce.com/services/oauth2/token'' ''signed'',
         fetch_event example_client ''T1'' ''https://x'' ''/limits/'' no_options,
         TokenFetch ''https://login.salesforce.com/services/oauth2/token'' ''signed'',
         fetch_event example_client ''T1'' ''https://x'' ''/limits/'' no_options])"
  by (simp add: request_unfold authenticate_def generateJwtAssertion_def example_defs
      SalesforceTokenResponseSchema_def always_def resource_calls_def clearTokenCache_def
      fetch_event_def)

theorem request_unauthorized_witness:
  "request (example_env token_granted (always (reply 401 ''expired'' None))) example_client []
        ''/limits/'' no_options 0
     = (Inl (Error ''Salesforce authentication failed after retries''),
        example_client\<lparr>tokenCache := None\<rparr>,
        [TokenFetch ''https://login.salesforce.com/services/oauth2/token'' ''signed'',
         fetch_event example_client ''T1'' ''https://x'' ''/limits/'' no_options])
   \<and> request (example_env token_granted (always (reply 401 ''expired'' None))) example_client []
        ''/limits/'' no_options 1
     = request (example_env token_granted (always (reply 401 ''expired'' None)))
         (example_client\<lparr>tokenCache := None\<rparr>)
         [TokenFetch ''https://login.salesforce.com/services/oauth2/token'' ''signed'',
          fetch_event example_client ''T1'' ''https://x'' ''/limits/'' no_options]
         ''/limits/'' no_options 0
   \<and> request (example_env token_granted (always (reply 401 ''expired'' None))) example_client []
        ''/limits/'' no_options 1
     = (Inl (Error ''Salesforce authentication failed after retries''),
        example_client\<lparr>tokenCache := None\<rparr>,
        [TokenFetch ''https://login.salesforce.com/services/oauth2/token'' ''signed'',
         fetch_event example_client ''T1'' ''https://x'' ''/limits/'' no_options,
         TokenFetch ''https://login.salesforce.com/services/oauth2/token'' ''signed'',
         fetch_event example_client ''T1'' ''https://x'' ''/limits/'' no_options])"
proof -
  let ?E = "example_env token_granted (always (reply 401 ''expired'' None))"
  let ?r = "\<lparr>status = 401, body_text = ''expired'', body_json = None\<rparr>"
  have reply: "resource_endpoint ?E
      (resource_calls [TokenFetch ''https://login.salesforce.com/services/oauth2/token'' ''signed''])
      = Response ?r"
    by (simp add: example_env_def reply_def always_def)
  have unauthorized: "status ?r = 401"
    by simp
  note inst = request_unauthorized [OF example_authenticate reply unauthorized,
      of _ "''/limits/''" no_options]
  from inst [of 0]
  have "request ?E example_client [] ''/limits/'' no_options 0
     = (Inl (Error ''Salesforce authentication failed after retries''),
        example_client\<lparr>tokenCache := None\<rparr>,
        [TokenFetch ''https://login.salesforce.com/services/oauth2/token'' ''signed'',
         fetch_event example_client ''T1'' ''https://x'' ''/limits/'' no_options])"
    by (simp add: fetch_event_def)
  moreover from inst [of 1]
  have "request ?E example_client [] ''/limits/'' no_options 1
     = request ?E (example_client\<lparr>tokenCache := None\<rparr>)
         [TokenFetch ''https://login.salesforce.com/services/oauth2/token'' ''signed'',
          fetch_event example_client ''T1'' ''https://x'' ''/limits/'' no_options]
         ''/limits/'' no_options 0"
    by (simp add: fetch_event_def)
  ultimately show ?thesis
    using example_run_401 by simp
qed

section \<open>Responses that are not retried\<close>

lemma request_not_ok:
  assumes "authenticate E c w = (Inr (tok, base), c1, w1)"
    and "resource_endpoint E (resource_calls w1) = Response r"
    and "\<not> ok r" and "status r \<noteq> 401"
    and "status r = 429 \<or> 500 \<le> status r \<Longrightarrow> retries \<le> 0"
  shows "request E c w endpoint options retries
           = (Inl (Error (errorMessage r)), c1, w1 @ [fetch_event c1 tok base endpoint options])"
  using assms by (subst request_unfold) auto

lemma errorMessage_parsed:
  "body_json r = Some j \<Longrightarrow> SalesforceErrorSchema j = Inr errs \<Longrightarrow>
     errorMessage r = ''Salesforce API Error: '' @ join '', '' (map message errs)"
  by (simp add: errorMessage_def)

lemma errorMessage_raw:
  "body_json r = None \<or> (\<exists>j e. body_json r = Some j \<and> SalesforceErrorSchema j = Inl e) \<Longrightarrow>
     errorMessage r = ''Salesforce API Error ('' @ show_nat (status r) @ ''): '' @ body_text r"
  by (auto simp: errorMessage_def)

text \<open>
  C8. Take a call of \<open>request\<close> whose authentication yields a token and whose resource
  call is answered with a status that is not 2xx, not 401, not 429 and below 500. Whatever
  the budget, the call fails at once with the plain error the source uses for API errors,
  after that single resource call and without any wait. Its message is
  ``Salesforce API Error: '' followed by the parsed messages, joined by a comma and a
  space, when the body is JSON that the error schema accepts; otherwise, also when the
  body is not JSON at all, it is ``Salesforce API Error (status): '' followed by the raw
  body text. No parse error escapes.
\<close>

theorem request_api_error:
  assumes "authenticate E c w = (Inr (tok, base), c1, w1)"
    and "resource_endpoint E (resource_calls w1) = Response r"
    and "\<not> ok r" and "status r \<noteq> 401" and "status r \<noteq> 429" and "status r < 500"
  shows "request E c w endpoint options retries
           = (Inl (Error (errorMessage r)), c1, w1 @ [fetch_event c1 tok base endpoint options])
       \<and> (\<forall>j errs. body_json r = Some j \<and> SalesforceErrorSchema j = Inr errs \<longrightarrow>
            errorMessage r = ''Salesforce API Error: '' @ join '', '' (map message errs))
       \<and> (body_json r = None \<or> (\<exists>j e. body_json r = Some j \<and> SalesforceErrorSchema j = Inl e) \<longrightarrow>
            errorMessage r = ''Salesforce API Error ('' @ show_nat (status r) @ ''): '' @ body_text r)"
proof (intro conjI allI impI)
  from assms show "request E c w endpoint options retries
      = (Inl (Error (errorMessage r)), c1, w1 @ [fetch_event c1 tok base endpoint options])"
    by (intro request_not_ok) auto
next
  fix j errs
  assume "body_json r = Some j \<and> SalesforceErrorSchema j = Inr errs"
  then show "errorMessage r = ''Salesforce API Error: '' @ join '', '' (map message errs)"
    by (simp add: errorMessage_parsed)
next
  assume "body_json r = None \<or> (\<exists>j e. body_json r = Some j \<and> SalesforceErrorSchema j = Inl e)"
  then show "errorMessage r = ''Salesforce API Error ('' @ show_nat (status r) @ ''): '' @ body_text r"
    by (rule errorMessage_raw)
qed

lemma example_first_reply:
  "resource_endpoint (example_env token (always f)) n = f"
  by (simp add: example_env_def always_def)

lemma example_error_parsed:
  "SalesforceErrorSchema example_error_json
     = Inr [\<lparr>message = ''busy'', errorCode = ''E'', errorFields = None\<rparr>]"
  by (simp add: example_error_json_def SalesforceErrorSchema_def SalesforceErrorElem_def)

theorem request_api_error_witness:
  "request (example_env token_granted (always (reply 400 ''<html>'' None))) example_client []
       ''/limits/'' no_options 3
     = (Inl (Error ''Salesforce API Error (400): <html>''),
        example_client\<lparr>tokenCache := Some (example_token 3300000)\<rparr>,
        [TokenFetch ''https://login.salesforce.com/services/oauth2/token'' ''signed'',
         fetch_event example_client ''T1'' ''https://x'' ''/limits/'' no_options])
   \<and> request (example_env token_granted
                (always (reply 400 example_error_text (Some example_error_json))))
       example_client [] ''/limits/'' no_options 3
     = (Inl (Error ''Salesforce API Error: busy''),
        example_client\<lparr>tokenCache := Some (example_token 3300000)\<rparr>,
        [TokenFetch ''https://login.salesforce.com/services/oauth2/token'' ''signed'',
         fetch_event example_client ''T1'' ''https://x'' ''/limits/'' no_options])"
proof -
  let ?r = "\<lparr>status = 400, body_text = ''<html>'', body_json = None\<rparr>"
  let ?p = "\<lparr>status = 400, body_text = example_error_text, body_json = Some example_error_json\<rparr>"
  have reply: "resource_endpoint (example_env token_granted (always (reply 400 ''<html>'' None)))
      (resource_calls [TokenFetch ''https://login.salesforce.com/services/oauth2/token'' ''signed''])
      = Response ?r"
    by (simp add: example_first_reply reply_def)
  have "\<not> ok ?r" "status ?r \<noteq> 401" "status ?r \<noteq> 429" "status ?r < 500"
    by (simp_all add: ok_def)
  from request_api_error [OF example_authenticate reply this, of "''/limits/''" no_options 3]
  have raw: "request (example_env token_granted (always (reply 400 ''<html>'' None)))
       example_client [] ''/limits/'' no_options 3
     = (Inl (Error ''Salesforce API Error (400): <html>''),
        example_client\<lparr>tokenCache := Some (example_token 3300000)\<rparr>,
        [TokenFetch ''https://login.salesforce.com/services/oauth2/token'' ''signed'',
         fetch_event example_client ''T1'' ''https://x'' ''/limits/'' no_options])"
    by (simp add: fetch_event_def show_nat.simps)
  have reply': "resource_endpoint (example_env token_granted
        (always (reply 400 example_error_text (Some example_error_json))))
      (resource_calls [TokenFetch ''https://login.salesforce.com/services/oauth2/token'' ''signed''])
      = Response ?p"
    by (simp add: example_first_reply reply_def)
  have "\<not> ok ?p" "status ?p \<noteq> 401" "status ?p \<noteq> 429" "status ?p < 500"
    by (simp_all add: ok_def)
  from request_api_error [OF example_authenticate reply' this, of "''/limits/''" no_options 3]
  have "request (example_env token_granted
                (always (reply 400 example_error_text (Some example_error_json))))
       example_client [] ''/limits/'' no_options 3
     = (Inl (Error ''Salesforce API Error: busy''),
        example_client\<lparr>tokenCache := Some (example_token 3300000)\<rparr>,
        [TokenFetch ''https://login.salesforce.com/services/oauth2/token'' ''signed'',
         fetch_event example_client ''T1'' ''https://x'' ''/limits/'' no_options])"
    by (simp add: fetch_event_def example_error_parsed)
  with raw show ?thesis by simp
qed

section \<open>An exhausted budget on 429 and on server errors\<close>

text \<open>
  C4, as the code has it. Take a call of \<open>request\<close> whose authentication yields a token,
  whose resource call is answered with status 429 or with a status of 500 or more, and
  whose remaining budget is 0. The call fails at once, without wait or retry, through the
  branch that handles every other non-2xx status: the error is the same plain error, with
  message ``Salesforce API Error: '' and the parsed messages when the body is JSON that the
  error schema accepts, and ``Salesforce API Error (status): '' and the raw body text
  otherwise. The source has no error of its own for either case.
\<close>

theorem request_exhausted_budget:
  assumes "authenticate E c w = (Inr (tok, base), c1, w1)"
    and "resource_endpoint E (resource_calls w1) = Response r"
    and "status r = 429 \<or> 500 \<le> status r"
    and "retries \<le> 0"
  shows "request E c w endpoint options retries
           = (Inl (Error (errorMessage r)), c1, w1 @ [fetch_event c1 tok base endpoint options])
       \<and> (\<forall>j errs. body_json r = Some j \<and> SalesforceErrorSchema j = Inr errs \<longrightarrow>
            errorMessage r = ''Salesforce API Error: '' @ join '', '' (map message errs))
       \<and> (body_json r = None \<or> (\<exists>j e. body_json r = Some j \<and> SalesforceErrorSchema j = Inl e) \<longrightarrow>
            errorMessage r = ''Salesforce API Error ('' @ show_nat (status r) @ ''): '' @ body_text r)"
proof (intro conjI allI impI)
  from assms(3) have "\<not> ok r" "status r \<noteq> 401"
    by (auto simp: ok_def)
  with assms show "request E c w endpoint options retries
      = (Inl (Error (errorMessage r)), c1, w1 @ [fetch_event c1 tok base endpoint options])"
    by (intro request_not_ok) auto
next
  fix j errs
  assume "body_json r = Some j \<and> SalesforceErrorSchema j = Inr errs"
  then show "errorMessage r = ''Salesforce API Error: '' @ join '', '' (map message errs)"
    by (simp add: errorMessage_parsed)
next
  assume "body_json r = None \<or> (\<exists>j e. body_json r = Some j \<and> SalesforceErrorSchema j = Inl e)"
  then show "errorMessage r = ''Salesforce API Error ('' @ show_nat (status r) @ ''): '' @ body_text r"
    by (rule errorMessage_raw)
qed

theorem request_exhausted_budget_witness:
  "request (example_env token_granted (always (reply 429 ''slow down'' None))) example_client []
       ''/limits/'' no_options 0
     = (Inl (Error ''Salesforce API Error (429): slow down''),
        example_client\<lparr>tokenCache := Some (example_token 3300000)\<rparr>,
        [TokenFetch ''https://login.salesforce.com/services/oauth2/token'' ''signed'',
         fetch_event example_client ''T1'' ''https://x'' ''/limits/'' no_options])"
proof -
  let ?r = "\<lparr>status = 429, body_text = ''slow down'', body_json = None\<rparr>"
  have reply: "resource_endpoint (example_env token_granted (always (reply 429 ''slow down'' None)))
      (resource_calls [TokenFetch ''https://login.salesforce.com/services/oauth2/token'' ''signed''])
      = Response ?r"
    by (simp add: example_first_reply reply_def)
  have "status ?r = 429 \<or> 500 \<le> status ?r" "(0::int) \<le> 0"
    by simp_all
  from request_exhausted_budget [OF example_authenticate reply this, of "''/limits/''" no_options]
  show ?thesis
    by (simp add: fetch_event_def show_nat.simps)
qed

text \<open>
  The claim of C4 as it is written fails: with no budget left, a 429, a 503 and a 400 that
  carry the same error list all end in one and the same error value, so the first two are
  not errors of a class of their own.
\<close>

theorem rate_limit_error_not_distinct:
  "fst (request (example_env token_granted
                  (always (reply 429 example_error_text (Some example_error_json))))
          (example_client\<lparr>maxRetries := 0\<rparr>) [] ''/limits/'' no_options 0)
     = Inl (Error ''Salesforce API Error: busy'')
   \<and> fst (request (example_env token_granted
                  (always (reply 503 example_error_text (Some example_error_json))))
          (example_client\<lparr>maxRetries := 0\<rparr>) [] ''/limits/'' no_options 0)
     = Inl (Error ''Salesforce API Error: busy'')
   \<and> fst (request (example_env token_granted
                  (always (reply 400 example_error_text (Some example_error_json))))
          (example_client\<lparr>maxRetries := 0\<rparr>) [] ''/limits/'' no_options 0)
     = Inl (Error ''Salesforce API Error: busy'')"
proof -
  have auth: "authenticate (example_env token_granted f) (example_client\<lparr>maxRetries := 0\<rparr>) []
     = (Inr (''T1'', ''https://x''),
        example_client\<lparr>tokenCache := Some (example_token 3300000), maxRetries := 0\<rparr>,
        [TokenFetch ''https://login.salesforce.com/services/oauth2/token'' ''signed''])" for f
    by (simp add: authenticate_def generateJwtAssertion_def example_defs
        SalesforceTokenResponseSchema_def)
  have msg: "errorMessage \<lparr>status = s, body_text = example_error_text,
                            body_json = Some example_error_json\<rparr>
      = ''Salesforce API Error: busy''" for s
    by (simp add: errorMessage_def example_error_json_def SalesforceErrorSchema_def
        SalesforceErrorElem_def)
  have "fst (request (example_env token_granted
                  (always (reply s example_error_text (Some example_error_json))))
          (example_client\<lparr>maxRetries := 0\<rparr>) [] ''/limits/'' no_options 0)
     = Inl (Error ''Salesforce API Error: busy'')"
    if "s = 429 \<or> s = 503 \<or> s = 400" for s
    using that
    by (subst request_unfold)
       (auto simp: auth example_first_reply reply_def ok_def msg)
  then show ?thesis by simp
qed

section \<open>Backoff\<close>

lemma waits_append: "waits (xs @ ys) = waits xs @ waits ys"
  by (induction xs rule: waits.induct) simp_all

lemma waits_TokenFetch: "list_all is_TokenFetch a \<Longrightarrow> waits a = []"
  by (induction a rule: waits.induct) simp_all

lemma waits_ResourceFetch: "is_ResourceFetch e \<Longrightarrow> waits (e # es) = waits es"
  by (cases e) simp_all

lemma waits_follow_ResourceFetch:
  "is_ResourceFetch e \<Longrightarrow> waits_follow off j (e # es) = waits_follow off (Suc j) es"
  by (cases e) simp_all

lemma waits_follow_append:
  "waits_follow off j (xs @ ys)
     = (waits_follow off j xs \<and> waits_follow off (j + resource_calls xs) ys)"
  by (induction off j xs rule: waits_follow.induct) auto

lemma waits_follow_TokenFetch: "list_all is_TokenFetch a \<Longrightarrow> waits_follow off j a"
  by (induction off j a rule: waits_follow.induct) simp_all

lemma waits_follow_shift: "waits_follow (off + 1) j seg \<Longrightarrow> waits_follow off (Suc j) seg"
  by (induction off j seg rule: waits_follow.induct) (simp_all add: algebra_simps)

lemma waits_follow_nth:
  assumes "waits_follow off j seg" and "i < length seg" and "seg ! i = Sleep d"
  shows "0 < j + resource_calls (take i seg)
       \<and> d = power_int 2 (off + int (j + resource_calls (take i seg)) - 1) * 1000"
proof -
  from assms(2,3) have "seg = take i seg @ Sleep d # drop (Suc i) seg"
    by (metis id_take_nth_drop)
  with assms(1) have "waits_follow off j (take i seg @ Sleep d # drop (Suc i) seg)"
    by simp
  then show ?thesis
    by (simp add: waits_follow_append)
qed

lemma request_waits_follow:
  "\<exists>seg. snd (snd (request E c w endpoint options retries)) = w @ seg
        \<and> waits_follow (maxRetries c - retries) 0 seg"
proof (induction c w retries
    rule: request_induct [where E = E and endpoint = endpoint and options = options])
  case (Return c w retries x)
  from attempt_Return [of E c w endpoint options retries "fst x" "fst (snd x)" "snd (snd x)"] Return
  obtain a where a: "list_all is_TokenFetch a"
    "snd (snd x) = w @ a \<or> (\<exists>e. is_ResourceFetch e \<and> snd (snd x) = w @ a @ [e])"
    by auto
  from a(2) show ?case
  proof
    assume "snd (snd x) = w @ a"
    with a(1) show ?thesis
      by (auto simp: request_Return [OF Return] waits_follow_TokenFetch)
  next
    assume "\<exists>e. is_ResourceFetch e \<and> snd (snd x) = w @ a @ [e]"
    then obtain e where "is_ResourceFetch e" "snd (snd x) = w @ (a @ [e])" by auto
    moreover from this a(1) have "waits_follow (maxRetries c - retries) 0 (a @ [e])"
      by (simp add: waits_follow_append waits_follow_TokenFetch waits_follow_ResourceFetch)
    ultimately show ?thesis unfolding request_Return [OF Return] by blast
  qed
next
  case (Again c w retries c' w')
  from attempt_Again(3) [OF Again(1)] obtain a e
    where a: "list_all is_TokenFetch a" "is_ResourceFetch e"
      "w' = w @ a @ [e] \<or> w' = w @ a @ [e, Sleep (delay c retries)]"
    by blast
  from Again(3) attempt_Again(2) [OF Again(1)] obtain seg
    where seg: "snd (snd (request E c' w' endpoint options (retries - 1))) = w' @ seg"
      "waits_follow (maxRetries c - retries + 1) 0 seg"
    by (auto simp: algebra_simps)
  from seg(2) have shifted: "waits_follow (maxRetries c - retries) (Suc 0) seg"
    by (rule waits_follow_shift)
  from a(3) show ?case
  proof
    assume "w' = w @ a @ [e]"
    with seg(1)
    have "snd (snd (request E c' w' endpoint options (retries - 1))) = w @ (a @ e # seg)"
      by simp
    moreover from a(1,2) shifted
    have "waits_follow (maxRetries c - retries) 0 (a @ e # seg)"
      by (simp add: waits_follow_append waits_follow_TokenFetch waits_follow_ResourceFetch
          resource_calls_TokenFetch)
    ultimately show ?thesis unfolding request_Again [OF Again(1)] by blast
  next
    assume "w' = w @ a @ [e, Sleep (delay c retries)]"
    with seg(1)
    have "snd (snd (request E c' w' endpoint options (retries - 1)))
        = w @ (a @ e # Sleep (delay c retries) # seg)"
      by simp
    moreover from a(1,2) shifted
    have "waits_follow (maxRetries c - retries) 0 (a @ e # Sleep (delay c retries) # seg)"
      by (simp add: waits_follow_append waits_follow_TokenFetch waits_follow_ResourceFetch
          resource_calls_TokenFetch delay_def)
    ultimately show ?thesis unfolding request_Again [OF Again(1)] by blast
  qed
qed

lemma request_waits_nth:
  "\<exists>seg. snd (snd (request E c w endpoint options (maxRetries c))) = w @ seg
        \<and> (\<forall>i<length seg. \<forall>d. seg ! i = Sleep d \<longrightarrow>
             (\<exists>n. resource_calls (take i seg) = Suc n \<and> d = 2 ^ n * 1000))"
proof -
  from request_waits_follow [of E c w endpoint options "maxRetries c"] obtain seg
    where seg: "snd (snd (request E c w endpoint options (maxRetries c))) = w @ seg"
      "waits_follow 0 0 seg"
    by auto
  have "\<exists>n. resource_calls (take i seg) = Suc n \<and> d = 2 ^ n * 1000"
    if "i < length seg" "seg ! i = Sleep d" for i d
  proof -
    from waits_follow_nth [OF seg(2) that]
    have pos: "0 < resource_calls (take i seg)"
      and d: "d = power_int 2 (int (resource_calls (take i seg)) - 1) * 1000"
      by simp_all
    from pos obtain n where n: "resource_calls (take i seg) = Suc n"
      by (cases "resource_calls (take i seg)") simp_all
    with d have "d = 2 ^ n * 1000" by simp
    with n show ?thesis by blast
  qed
  with seg(1) show ?thesis by blast
qed

lemma request_backoff_step:
  assumes "authenticate E c w = (Inr (tok, base), c1, w1)"
    and "resource_endpoint E (resource_calls w1) = Rejected AbortError
       \<or> (\<exists>r. resource_endpoint E (resource_calls w1) = Response r
              \<and> (status r = 429 \<or> 500 \<le> status r))"
    and "0 < retries" and "retries \<le> maxRetries c"
  shows "request E c w endpoint options retries
       = request E c1 (w1 @ [fetch_event c1 tok base endpoint options,
                             Sleep (2 ^ nat (maxRetries c - retries) * 1000)])
           endpoint options (retries - 1)"
proof -
  from authenticate_effects(2) [OF assms(1)] assms(4)
  have "delay c1 retries = 2 ^ nat (maxRetries c - retries) * 1000"
    by (simp add: delay_def power_int_def)
  with assms(1,2,3) show ?thesis
    by (subst request_unfold) auto
qed

lemma request_backoff_again:
  assumes "authenticates E"
    and "resource_endpoint E (resource_calls w) = Response r"
    and "status r = 429 \<or> 500 \<le> status r"
  shows "\<exists>c1 a e. maxRetries c1 = maxRetries c \<and> list_all is_TokenFetch a \<and> is_ResourceFetch e \<and>
           request E c w endpoint options retries
             = (if 0 < retries
                then request E c1 (w @ a @ [e, Sleep (delay c retries)]) endpoint options (retries - 1)
                else (Inl (Error (errorMessage r)), c1, w @ a @ [e]))"
proof -
  from assms(1) obtain tok base c1 w1
    where auth: "authenticate E c w = (Inr (tok, base), c1, w1)"
    unfolding authenticates_def by (metis surj_pair)
  from authenticate_effects [OF auth] obtain a
    where a: "w1 = w @ a" "list_all is_TokenFetch a" and m: "maxRetries c1 = maxRetries c"
    by blast
  from a have rc: "resource_calls w1 = resource_calls w"
    by (simp add: resource_calls_TokenFetch)
  from assms(3) have "status r \<noteq> 401" "\<not> ok r"
    by (auto simp: ok_def)
  with auth assms(2,3) rc a(1) delay_cong [OF m, of retries]
  have "request E c w endpoint options retries
      = (if 0 < retries
         then request E c1 (w @ a @ [fetch_event c1 tok base endpoint options, Sleep (delay c retries)])
                endpoint options (retries - 1)
         else (Inl (Error (errorMessage r)), c1, w @ a @ [fetch_event c1 tok base endpoint options]))"
    by (subst request_unfold) auto
  with a(2) m is_ResourceFetch_fetch_event show ?thesis by blast
qed

lemma request_backoff_run:
  assumes "authenticates E"
    and "\<forall>n. \<exists>r. resource_endpoint E n = Response r \<and> (status r = 429 \<or> 500 \<le> status r)"
  shows "\<exists>seg. snd (snd (request E c w endpoint options retries)) = w @ seg
        \<and> waits seg = map (\<lambda>k. delay c (retries - int k)) [0..<nat retries]
        \<and> resource_calls seg = nat retries + 1
        \<and> (\<exists>e. fst (request E c w endpoint options retries) = Inl e)"
proof (induction "nat retries" arbitrary: c w retries)
  case 0
  from assms(2) obtain r
    where r: "resource_endpoint E (resource_calls w) = Response r" "status r = 429 \<or> 500 \<le> status r"
    by blast
  from request_backoff_again [OF assms(1) r, of c endpoint options retries] 0
  obtain c1 a e where "list_all is_TokenFetch a" "is_ResourceFetch e"
    "request E c w endpoint options retries = (Inl (Error (errorMessage r)), c1, w @ a @ [e])"
    by auto
  with 0 have "snd (snd (request E c w endpoint options retries)) = w @ (a @ [e])
        \<and> waits (a @ [e]) = map (\<lambda>k. delay c (retries - int k)) [0..<nat retries]
        \<and> resource_calls (a @ [e]) = nat retries + 1
        \<and> (\<exists>e. fst (request E c w endpoint options retries) = Inl e)"
    by (simp add: waits_append waits_TokenFetch waits_ResourceFetch resource_calls_TokenFetch)
  then show ?case by blast
next
  case (Suc n)
  from assms(2) obtain r
    where r: "resource_endpoint E (resource_calls w) = Response r" "status r = 429 \<or> 500 \<le> status r"
    by blast
  from Suc.hyps(2) have pos: "0 < retries" and n: "n = nat (retries - 1)"
    by simp_all
  from request_backoff_again [OF assms(1) r, of c endpoint options retries] pos
  obtain c1 a e where c1: "maxRetries c1 = maxRetries c"
    and a: "list_all is_TokenFetch a" "is_ResourceFetch e"
    and step: "request E c w endpoint options retries
      = request E c1 (w @ a @ [e, Sleep (delay c retries)]) endpoint options (retries - 1)"
    by auto
  from Suc.hyps(1) [OF n, of c1 "w @ a @ [e, Sleep (delay c retries)]"] obtain seg
    where seg: "snd (snd (request E c1 (w @ a @ [e, Sleep (delay c retries)]) endpoint options
                  (retries - 1))) = (w @ a @ [e, Sleep (delay c retries)]) @ seg"
      "waits seg = map (\<lambda>k. delay c1 (retries - 1 - int k)) [0..<nat (retries - 1)]"
      "resource_calls seg = nat (retries - 1) + 1"
      "\<exists>e'. fst (request E c1 (w @ a @ [e, Sleep (delay c retries)]) endpoint options
                  (retries - 1)) = Inl e'"
    by blast
  have shift: "map (\<lambda>k. delay c (retries - int k)) [0..<nat retries]
      = delay c retries # map (\<lambda>k. delay c1 (retries - 1 - int k)) [0..<nat (retries - 1)]"
  proof -
    have "[0..<nat retries] = 0 # map Suc [0..<n]"
      using Suc.hyps(2) [symmetric] by (simp add: upt_conv_Cons map_Suc_upt del: upt_Suc)
    then show ?thesis
      using n delay_cong [OF c1] by (simp add: comp_def algebra_simps)
  qed
  from step seg a pos shift
  have "snd (snd (request E c w endpoint options retries))
          = w @ (a @ [e, Sleep (delay c retries)] @ seg)
        \<and> waits (a @ [e, Sleep (delay c retries)] @ seg)
          = map (\<lambda>k. delay c (retries - int k)) [0..<nat retries]
        \<and> resource_calls (a @ [e, Sleep (delay c retries)] @ seg) = nat retries + 1
        \<and> (\<exists>e. fst (request E c w endpoint options retries) = Inl e)"
    by (simp add: waits_append waits_TokenFetch waits_ResourceFetch resource_calls_TokenFetch)
  then show ?case by blast
qed

lemma example_authenticates: "authenticates (example_env token_granted f)"
  by (auto simp: authenticates_def authenticate_def generateJwtAssertion_def Let_def
      example_env_def token_granted_def reply_def ok_def example_token_json_def
      SalesforceTokenResponseSchema_def split: option.splits)

text \<open>
  C3. A public operation calls \<open>request\<close> with the configured \<open>maxRetries\<close> as initial
  budget. (1) In the trace such a call adds, every wait comes after at least one resource
  call of that request, and the wait that follows the \<open>(n + 1)\<close>-th of them, when the budget
  has gone from its initial value down by \<open>n\<close>, lasts \<open>2 ^ n * 1000\<close> ms. (2) Step by step:
  an attempt with remaining budget \<open>retries\<close>, above 0 and at most the initial budget, that
  ends in a timeout, a 429 or a status of 500 or more, waits
  \<open>2 ^ (maxRetries - retries) * 1000\<close> ms and then is the same call with budget
  \<open>retries - 1\<close>. (3) With initial budget 3, authentication that succeeds and a server that
  answers every resource call with 429, the waits are exactly 1000, 2000 and 4000 ms,
  between four resource calls, and the call then fails.
\<close>

theorem request_backoff:
  "(\<exists>seg. snd (snd (request E c w endpoint options (maxRetries c))) = w @ seg
        \<and> (\<forall>i<length seg. \<forall>d. seg ! i = Sleep d \<longrightarrow>
             (\<exists>n. resource_calls (take i seg) = Suc n \<and> d = 2 ^ n * 1000)))
   \<and> (authenticate E c w = (Inr (tok, base), c1, w1)
        \<and> (resource_endpoint E (resource_calls w1) = Rejected AbortError
            \<or> (\<exists>r. resource_endpoint E (resource_calls w1) = Response r
                   \<and> (status r = 429 \<or> 500 \<le> status r)))
        \<and> 0 < retries \<and> retries \<le> maxRetries c \<longrightarrow>
      request E c w endpoint options retries
        = request E c1 (w1 @ [fetch_event c1 tok base endpoint options,
                              Sleep (2 ^ nat (maxRetries c - retries) * 1000)])
            endpoint options (retries - 1))
   \<and> (maxRetries c = 3 \<and> authenticates E
        \<and> (\<forall>n. \<exists>r. resource_endpoint E n = Response r \<and> status r = 429) \<longrightarrow>
      (\<exists>seg. snd (snd (request E c w endpoint options (maxRetries c))) = w @ seg
          \<and> waits seg = [1000, 2000, 4000] \<and> resource_calls seg = 4)
      \<and> (\<exists>e. fst (request E c w endpoint options (maxRetries c)) = Inl e))"
proof (intro conjI impI)
  show "\<exists>seg. snd (snd (request E c w endpoint options (maxRetries c))) = w @ seg
        \<and> (\<forall>i<length seg. \<forall>d. seg ! i = Sleep d \<longrightarrow>
             (\<exists>n. resource_calls (take i seg) = Suc n \<and> d = 2 ^ n * 1000))"
    by (rule request_waits_nth)
next
  assume "authenticate E c w = (Inr (tok, base), c1, w1)
        \<and> (resource_endpoint E (resource_calls w1) = Rejected AbortError
            \<or> (\<exists>r. resource_endpoint E (resource_calls w1) = Response r
                   \<and> (status r = 429 \<or> 500 \<le> status r)))
        \<and> 0 < retries \<and> retries \<le> maxRetries c"
  then show "request E c w endpoint options retries
        = request E c1 (w1 @ [fetch_event c1 tok base endpoint options,
                              Sleep (2 ^ nat (maxRetries c - retries) * 1000)])
            endpoint options (retries - 1)"
    by (intro request_backoff_step) blast+
next
  assume h: "maxRetries c = 3 \<and> authenticates E
        \<and> (\<forall>n. \<exists>r. resource_endpoint E n = Response r \<and> status r = 429)"
  then have all: "\<forall>n. \<exists>r. resource_endpoint E n = Response r \<and> (status r = 429 \<or> 500 \<le> status r)"
    by blast
  from h have auth: "authenticates E" by blast
  from request_backoff_run [OF auth all, of c w endpoint options 3] obtain seg
    where seg: "snd (snd (request E c w endpoint options 3)) = w @ seg"
      "waits seg = map (\<lambda>k. delay c (3 - int k)) [0..<nat 3]"
      "resource_calls seg = nat 3 + 1"
      and fails: "\<exists>e. fst (request E c w endpoint options 3) = Inl e"
    by blast
  have "[0..<nat 3] = [0, 1, 2]"
    by (simp add: upt_rec)
  with seg(2) h have "waits seg = [1000, 2000, 4000]"
    by (simp add: delay_def)
  with seg(1,3) h
  show "\<exists>seg. snd (snd (request E c w endpoint options (maxRetries c))) = w @ seg
          \<and> waits seg = [1000, 2000, 4000] \<and> resource_calls seg = 4"
    by auto
  from fails h show "\<exists>e. fst (request E c w endpoint options (maxRetries c)) = Inl e"
    by simp
qed

lemma example_run_429:
  "request (example_env token_granted (always (reply 429 ''slow'' None))) example_client []
       ''/limits/'' no_options 3
   = (Inl (Error ''Salesforce API Error (429): slow''),
      example_client\<lparr>tokenCache := Some (example_token 3300000)\<rparr>,
      [TokenFetch ''https://login.salesforce.com/services/oauth2/token'' ''signed'',
       fetch_event example_client ''T1'' ''https://x'' ''/limits/'' no_options,
       Sleep 1000,
       fetch_event example_client ''T1'' ''https://x'' ''/limits/'' no_options,
       Sleep 2000,
       fetch_event example_client ''T1'' ''https://x'' ''/limits/'' no_options,
       Sleep 4000,
       fetch_event example_client ''T1'' ''https://x'' ''/limits/'' no_options])"
  by (simp add: request_unfold authenticate_def generateJwtAssertion_def example_defs
      SalesforceTokenResponseSchema_def always_def resource_calls_def delay_def
      errorMessage_def show_nat.simps fetch_event_def)

theorem request_backoff_witness:
  "snd (snd (request (example_env token_granted (always (reply 429 ''slow'' None))) example_client []
       ''/limits/'' no_options 3))
     = [TokenFetch ''https://login.salesforce.com/services/oauth2/token'' ''signed'',
       fetch_event example_client ''T1'' ''https://x'' ''/limits/'' no_options,
       Sleep 1000,
       fetch_event example_client ''T1'' ''https://x'' ''/limits/'' no_options,
       Sleep 2000,
       fetch_event example_client ''T1'' ''https://x'' ''/limits/'' no_options,
       Sleep 4000,
       fetch_event example_client ''T1'' ''https://x'' ''/limits/'' no_options]
   \<and> request (example_env token_granted (always (reply 429 ''slow'' None))) example_client []
       ''/limits/'' no_options 3
     = request (example_env token_granted (always (reply 429 ''slow'' None)))
         (example_client\<lparr>tokenCache := Some (example_token 3300000)\<rparr>)
         [TokenFetch ''https://login.salesforce.com/services/oauth2/token'' ''signed'',
          fetch_event example_client ''T1'' ''https://x'' ''/limits/'' no_options,
          Sleep 1000]
         ''/limits/'' no_options 2
   \<and> waits (snd (snd (request (example_env token_granted (always (reply 429 ''slow'' None)))
                         example_client [] ''/limits/'' no_options 3)))
     = [1000, 2000, 4000]"
proof -
  let ?E = "example_env token_granted (always (reply 429 ''slow'' None))"
  let ?w1 = "[TokenFetch ''https://login.salesforce.com/services/oauth2/token'' ''signed'']"
  note inst = request_backoff [of ?E example_client "[]" "''/limits/''" no_options
      "''T1''" "''https://x''" "example_client\<lparr>tokenCache := Some (example_token 3300000)\<rparr>"
      ?w1 3]
  have m: "maxRetries example_client = 3"
    by (simp add: example_client_def new_SalesforceClient_def nullish_def example_options_def)
  have reply: "\<exists>r. resource_endpoint ?E n = Response r \<and> status r = 429" for n
    by (simp add: example_first_reply reply_def)
  have step: "request ?E example_client [] ''/limits/'' no_options 3
     = request ?E (example_client\<lparr>tokenCache := Some (example_token 3300000)\<rparr>)
         (?w1 @ [fetch_event (example_client\<lparr>tokenCache := Some (example_token 3300000)\<rparr>)
                   ''T1'' ''https://x'' ''/limits/'' no_options,
                 Sleep (2 ^ nat (maxRetries example_client - 3) * 1000)])
         ''/limits/'' no_options (3 - 1)"
  proof (rule inst [THEN conjunct2, THEN conjunct1, THEN mp])
    show "authenticate ?E example_client []
            = (Inr (''T1'', ''https://x''),
               example_client\<lparr>tokenCache := Some (example_token 3300000)\<rparr>, ?w1)
        \<and> (resource_endpoint ?E (resource_calls ?w1) = Rejected AbortError
            \<or> (\<exists>r. resource_endpoint ?E (resource_calls ?w1) = Response r
                   \<and> (status r = 429 \<or> 500 \<le> status r)))
        \<and> (0::int) < 3 \<and> 3 \<le> maxRetries example_client"
      using reply [of "resource_calls ?w1"] m by (auto simp: example_authenticate)
  qed
  have run: "\<exists>seg. snd (snd (request ?E example_client [] ''/limits/'' no_options
                (maxRetries example_client))) = [] @ seg
              \<and> waits seg = [1000, 2000, 4000] \<and> resource_calls seg = 4"
  proof (rule inst [THEN conjunct2, THEN conjunct2, THEN mp, THEN conjunct1])
    show "maxRetries example_client = 3 \<and> authenticates ?E
        \<and> (\<forall>n. \<exists>r. resource_endpoint ?E n = Response r \<and> status r = 429)"
      using m example_authenticates [of "always (reply 429 ''slow'' None)"] reply by blast
  qed
  from step m have first: "request ?E example_client [] ''/limits/'' no_options 3
     = request ?E (example_client\<lparr>tokenCache := Some (example_token 3300000)\<rparr>)
         [TokenFetch ''https://login.salesforce.com/services/oauth2/token'' ''signed'',
          fetch_event example_client ''T1'' ''https://x'' ''/limits/'' no_options,
          Sleep 1000]
         ''/limits/'' no_options 2"
    by (simp add: fetch_event_def)
  from run m
  have all: "waits (snd (snd (request ?E example_client [] ''/limits/'' no_options 3)))
      = [1000, 2000, 4000]"
    by auto
  have trace: "snd (snd (request ?E example_client [] ''/limits/'' no_options 3))
     = [TokenFetch ''https://login.salesforce.com/services/oauth2/token'' ''signed'',
       fetch_event example_client ''T1'' ''https://x'' ''/limits/'' no_options,
       Sleep 1000,
       fetch_event example_client ''T1'' ''https://x'' ''/limits/'' no_options,
       Sleep 2000,
       fetch_event example_client ''T1'' ''https://x'' ''/limits/'' no_options,
       Sleep 4000,
       fetch_event example_client ''T1'' ''https://x'' ''/limits/'' no_options]"
    by (simp add: example_run_429)
  from trace first all show ?thesis by blast
qed

section \<open>Record creation\<close>

lemma attempt_Return_Inr:
  assumes "attempt E c w endpoint options retries = Return (Inr j, c', w')"
  shows "\<exists>r. resource_endpoint E (resource_calls w' - 1) = Response r \<and> ok r
            \<and> (if status r = 204 then j = JObj [] else body_json r = Some j)"
proof -
  obtain y c1 w1 where a: "authenticate E c w = (y, c1, w1)"
    by (metis prod_cases3)
  from assms a obtain r
    where "resource_endpoint E (resource_calls w1) = Response r" "ok r"
      "if status r = 204 then j = JObj [] else body_json r = Some j"
      "resource_calls w' = Suc (resource_calls w1)"
    by (auto simp: attempt_def Let_def
        split: sum.splits fetch_result.splits if_splits option.splits)
  then show ?thesis by auto
qed

lemma request_result:
  "request E c w endpoint options retries = (Inr j, c', w') \<longrightarrow>
     (\<exists>r. resource_endpoint E (resource_calls w' - 1) = Response r \<and> ok r
          \<and> (if status r = 204 then j = JObj [] else body_json r = Some j))"
proof (induction c w retries
    rule: request_induct [where E = E and endpoint = endpoint and options = options])
  case (Return c w retries x)
  show ?case
    unfolding request_Return [OF Return]
    using Return attempt_Return_Inr [of E c w endpoint options retries j c' w']
    by blast
next
  case (Again c w retries c1 w1)
  from Again(3) show ?case
    unfolding request_Again [OF Again(1)] .
qed

text \<open>
  C6, as the code has it. When \<open>createRecord\<close> succeeds and the body of the response it
  returns from, the last one received, is the object with \<^verbatim>\<open>id\<close> ``001x'',
  \<^verbatim>\<open>success\<close> true and \<^verbatim>\<open>errors\<close> the empty list, the value returned is the object with
  these three keys: the schema declares \<^verbatim>\<open>errors\<close>, so the parse keeps it.
\<close>

theorem createRecord_keeps_errors:
  assumes "createRecord E c w sobject data = (Inr created, c', w')"
    and "resource_endpoint E (resource_calls w' - 1) = Response r"
    and "body_json r
           = Some (JObj [(''id'', JStr ''001x''), (''success'', JBool True), (''errors'', JArr [])])"
  shows "created = JObj [(''id'', JStr ''001x''), (''success'', JBool True), (''errors'', JArr [])]"
proof -
  let ?init = "\<lparr>requestMethod = Some ''POST'', headers = [], body = Some (JSON_stringify E data)\<rparr>"
  from assms(1) obtain j
    where req: "request E c w (''/sobjects/'' @ sobject @ ''/'') ?init (maxRetries c) = (Inr j, c', w')"
      and parsed: "SalesforceCreateResponseSchema j = Inr created"
    by (auto simp: createRecord_def split: prod.splits sum.splits)
  from request_result [of E c w _ ?init "maxRetries c" j c' w'] req assms(2)
  have j: "if status r = 204 then j = JObj [] else body_json r = Some j"
    by auto
  have "status r \<noteq> 204"
  proof
    assume "status r = 204"
    with j have "j = JObj []" by simp
    with parsed show False
      by (simp add: SalesforceCreateResponseSchema_def)
  qed
  with j assms(3)
  have "j = JObj [(''id'', JStr ''001x''), (''success'', JBool True), (''errors'', JArr [])]"
    by simp
  with parsed show ?thesis
    by (simp add: SalesforceCreateResponseSchema_def)
qed

lemma example_createRecord:
  "createRecord (example_env token_granted
                   (always (reply 201 example_create_text (Some example_create_json))))
       example_client [] ''Account'' (JObj [(''Name'', JStr ''New Account'')])
     = (Inr (JObj [(''id'', JStr ''001x''), (''success'', JBool True), (''errors'', JArr [])]),
        example_client\<lparr>tokenCache := Some (example_token 3300000)\<rparr>,
        [TokenFetch ''https://login.salesforce.com/services/oauth2/token'' ''signed'',
         fetch_event example_client ''T1'' ''https://x'' ''/sobjects/Account/''
           \<lparr>requestMethod = Some ''POST'', headers = [], body = Some ''{}''\<rparr>])"
proof -
  have m: "maxRetries example_client = 3"
    by (simp add: example_client_def new_SalesforceClient_def nullish_def example_options_def)
  have s: "JSON_stringify (example_env t f) d = ''{}''" for t f d
    by (simp add: example_env_def)
  show ?thesis
    unfolding createRecord_def m s
    by (subst request_unfold)
       (simp add: example_authenticate example_first_reply reply_def ok_def
          example_create_json_def SalesforceCreateResponseSchema_def fetch_event_def)
qed

theorem createRecord_keeps_errors_witness:
  "fst (createRecord (example_env token_granted
                   (always (reply 201 example_create_text (Some example_create_json))))
       example_client [] ''Account'' (JObj [(''Name'', JStr ''New Account'')]))
     = Inr (JObj [(''id'', JStr ''001x''), (''success'', JBool True), (''errors'', JArr [])])"
proof -
  let ?E = "example_env token_granted
              (always (reply 201 example_create_text (Some example_create_json)))"
  obtain created c' w'
    where run: "createRecord ?E example_client [] ''Account'' (JObj [(''Name'', JStr ''New Account'')])
        = (Inr created, c', w')"
      and w': "w' = [TokenFetch ''https://login.salesforce.com/services/oauth2/token'' ''signed'',
         fetch_event example_client ''T1'' ''https://x'' ''/sobjects/Account/''
           \<lparr>requestMethod = Some ''POST'', headers = [], body = Some ''{}''\<rparr>]"
    using example_createRecord by blast
  have last: "resource_endpoint ?E (resource_calls w' - 1)
      = Response \<lparr>status = 201, body_text = example_create_text,
                   body_json = Some example_create_json\<rparr>"
    by (simp add: example_first_reply reply_def)
  from createRecord_keeps_errors [OF run last] run show ?thesis
    by (simp add: example_create_json_def)
qed

text \<open>
  The claim of C6 as it is written fails: for that very response body the value returned
  holds the \<^verbatim>\<open>errors\<close> key and so is not the object with \<^verbatim>\<open>id\<close> and \<^verbatim>\<open>success\<close> only.
\<close>

theorem createRecord_errors_not_dropped:
  "fst (createRecord (example_env token_granted
                   (always (reply 201 example_create_text (Some example_create_json))))
       example_client [] ''Account'' (JObj [(''Name'', JStr ''New Account'')]))
     = Inr (JObj [(''id'', JStr ''001x''), (''success'', JBool True), (''errors'', JArr [])])
   \<and> fst (createRecord (example_env token_granted
                   (always (reply 201 example_create_text (Some example_create_json))))
       example_client [] ''Account'' (JObj [(''Name'', JStr ''New Account'')]))
     \<noteq> Inr (JObj [(''id'', JStr ''001x''), (''success'', JBool True)])"
  by (simp add: example_createRecord)

section \<open>Paginated queries\<close>









end
